theory Spec2Isabelle
  imports Main "HOL-Library.AList"
begin

section \<open>Runtime values and the host\<close>

text \<open>
  \<^verbatim>\<open>StorageService\<close> handles values of type \<^verbatim>\<open>any\<close>: whatever \<^verbatim>\<open>JSON.parse\<close> returns.
  They are the JSON values. An object is the list of its own properties in insertion
  order, each name once; \<^verbatim>\<open>undefined\<close> (a missing property) is \<open>None\<close> of
  \<open>jsval option\<close>.
  The program never computes with numbers; it only tests them for truthiness. A string
  is the text in UTF-8: the program compares strings, tests them for emptiness and
  concatenates ASCII texts, which UTF-8 preserves.
\<close>

datatype jsval =
    JNull
  | JBool bool
  | JNum int
  | JStr string
  | JArr "jsval list"
  | JObj "(string \<times> jsval) list"

datatype exn = SyntaxError | TypeError | DOMException nat

text \<open>
  The functions of the JavaScript host that the program calls and does not define:
  \<^verbatim>\<open>JSON.parse\<close> (\<open>None\<close>: it throws SyntaxError), \<^verbatim>\<open>JSON.stringify\<close> and
  \<^verbatim>\<open>Date.parse\<close> (\<open>None\<close>: the result is NaN). They are parameters of the model.
\<close>

record host =
  json_parse :: "string \<Rightarrow> jsval option"
  json_stringify :: "jsval \<Rightarrow> string"
  date_parse :: "string \<Rightarrow> int option"

text \<open>Truthiness of a value (\<^verbatim>\<open>!x\<close>, \<^verbatim>\<open>x && ...\<close>); \<^verbatim>\<open>undefined\<close> is falsy.\<close>

fun truthy :: "jsval option \<Rightarrow> bool" where
  "truthy None = False"
| "truthy (Some JNull) = False"
| "truthy (Some (JBool b)) = b"
| "truthy (Some (JNum n)) = (n \<noteq> 0)"
| "truthy (Some (JStr s)) = (s \<noteq> [])"
| "truthy (Some (JArr xs)) = True"
| "truthy (Some (JObj kvs)) = True"

fun typeof :: "jsval option \<Rightarrow> string" where
  "typeof None = ''undefined''"
| "typeof (Some JNull) = ''object''"
| "typeof (Some (JBool b)) = ''boolean''"
| "typeof (Some (JNum n)) = ''number''"
| "typeof (Some (JStr s)) = ''string''"
| "typeof (Some (JArr xs)) = ''object''"
| "typeof (Some (JObj kvs)) = ''object''"

text \<open>
  Reading one of the properties the program reads (\<^verbatim>\<open>tasks\<close>, \<^verbatim>\<open>id\<close>, \<^verbatim>\<open>title\<close>,
  \<^verbatim>\<open>description\<close>, \<^verbatim>\<open>status\<close>, \<^verbatim>\<open>createdAt\<close>): an object has it when it is one of its
  own properties; a primitive or an array has none of them. On \<^verbatim>\<open>null\<close> the read
  throws TypeError.
\<close>

fun lookup :: "jsval \<Rightarrow> string \<Rightarrow> jsval option" where
  "lookup (JObj kvs) k = map_of kvs k"
| "lookup v k = None"

definition get_prop :: "jsval \<Rightarrow> string \<Rightarrow> exn + jsval option" where
  "get_prop v k = (case v of JNull \<Rightarrow> Inl TypeError | _ \<Rightarrow> Inr (lookup v k))"

text \<open>\<^verbatim>\<open>Array.isArray\<close>, and \<^verbatim>\<open>Array.prototype.includes\<close> on an array of strings.\<close>

fun isArray :: "jsval option \<Rightarrow> bool" where
  "isArray (Some (JArr xs)) = True"
| "isArray v = False"

fun array_includes :: "string list \<Rightarrow> jsval option \<Rightarrow> bool" where
  "array_includes xs (Some (JStr s)) = (s \<in> set xs)"
| "array_includes xs v = False"

section \<open>The browser's localStorage\<close>

text \<open>
  The environment of \<^verbatim>\<open>StorageService\<close>: whether \<^verbatim>\<open>window\<close> exists, whether access to
  \<^verbatim>\<open>localStorage\<close> is refused (every access throws a SecurityError, code 18), how many
  bytes of text the store holds at most (\<^verbatim>\<open>setItem\<close> throws QuotaExceededError, code 22,
  beyond it), and the stored entries. A computation runs in an environment and gives a
  value or an exception, and the environment it leaves.
\<close>

record env =
  window_defined :: bool
  access_denied :: bool
  quota :: nat
  items :: "(string \<times> string) list"

type_synonym 'a comp = "env \<Rightarrow> (exn + 'a) \<times> env"

definition ret :: "'a \<Rightarrow> 'a comp" where
  "ret v e = (Inr v, e)"

definition throw :: "exn \<Rightarrow> 'a comp" where
  "throw x e = (Inl x, e)"

definition andThen :: "'a comp \<Rightarrow> ('a \<Rightarrow> 'b comp) \<Rightarrow> 'b comp" where
  "andThen m f e = (case m e of (Inl x, e') \<Rightarrow> (Inl x, e') | (Inr v, e') \<Rightarrow> f v e')"

definition try_catch :: "'a comp \<Rightarrow> (exn \<Rightarrow> 'a comp) \<Rightarrow> 'a comp" where
  "try_catch body handler e =
     (case body e of (Inl x, e') \<Rightarrow> handler x e' | (Inr v, e') \<Rightarrow> (Inr v, e'))"

definition storage_size :: "(string \<times> string) list \<Rightarrow> nat" where
  "storage_size kvs = sum_list (map (\<lambda>(k, v). length k + length v) kvs)"

definition getItem :: "string \<Rightarrow> string option comp" where
  "getItem k e =
     (if access_denied e then throw (DOMException 18) e
      else ret (map_of (items e) k) e)"

definition setItem :: "string \<Rightarrow> string \<Rightarrow> unit comp" where
  "setItem k v e =
     (if access_denied e then throw (DOMException 18) e
      else if quota e < storage_size (AList.update k v (items e)) then throw (DOMException 22) e
      else ret () (e\<lparr>items := AList.update k v (items e)\<rparr>))"

definition removeItem :: "string \<Rightarrow> unit comp" where
  "removeItem k e =
     (if access_denied e then throw (DOMException 18) e
      else ret () (e\<lparr>items := AList.delete k (items e)\<rparr>))"

section \<open>StorageService\<close>

definition STORAGE_KEY :: string where
  "STORAGE_KEY = ''kanban-tasks''"

definition STORAGE_VERSION :: string where
  "STORAGE_VERSION = ''1.0''"

definition VERSION_KEY :: string where
  "VERSION_KEY = ''kanban-version''"

text \<open>
  \<^verbatim>\<open>isValidTask\<close>. The first two conjuncts guard the property reads, so none of them
  throws.
\<close>

definition isValidTask :: "host \<Rightarrow> jsval \<Rightarrow> bool" where
  "isValidTask h task \<longleftrightarrow>
     truthy (Some task) \<and>
     typeof (Some task) = ''object'' \<and>
     typeof (lookup task ''id'') = ''string'' \<and>
     typeof (lookup task ''title'') = ''string'' \<and>
     typeof (lookup task ''description'') = ''string'' \<and>
     typeof (lookup task ''status'') = ''string'' \<and>
     array_includes [''todo'', ''in-progress'', ''done''] (lookup task ''status'') \<and>
     typeof (lookup task ''createdAt'') = ''string'' \<and>
     (case lookup task ''createdAt'' of
        Some (JStr s) \<Rightarrow> date_parse h s \<noteq> None
      | _ \<Rightarrow> False)"

text \<open>
  \<^verbatim>\<open>clearTasks\<close>: the body of the \<^verbatim>\<open>try\<close>, then the method with its \<^verbatim>\<open>catch\<close>, which only
  logs. Console output is not part of the model.
\<close>

definition clearTasks_try :: "unit comp" where
  "clearTasks_try e =
     (if \<not> window_defined e then ret () e
      else andThen (removeItem STORAGE_KEY) (\<lambda>_. removeItem VERSION_KEY) e)"

definition clearTasks :: "unit comp" where
  "clearTasks = try_catch clearTasks_try (\<lambda>error. ret ())"

text \<open>\<^verbatim>\<open>saveTasks\<close>: the \<^verbatim>\<open>catch\<close> logs, and warns when the error is a quota error.\<close>

definition saveTasks_try :: "host \<Rightarrow> jsval list \<Rightarrow> unit comp" where
  "saveTasks_try h tasks e =
     (if \<not> window_defined e then ret () e
      else
        let validTasks = filter (isValidTask h) tasks
        in andThen (setItem STORAGE_KEY (json_stringify h (JArr validTasks)))
             (\<lambda>_. setItem VERSION_KEY STORAGE_VERSION) e)"

definition saveTasks :: "host \<Rightarrow> jsval list \<Rightarrow> unit comp" where
  "saveTasks h tasks = try_catch (saveTasks_try h tasks) (\<lambda>error. ret ())"

text \<open>
  \<^verbatim>\<open>getTasks\<close>. \<^verbatim>\<open>version && version !== STORAGE_VERSION\<close> and \<^verbatim>\<open>!stored\<close> test strings
  for truthiness: \<^verbatim>\<open>null\<close> and the empty string are falsy.
\<close>

fun truthy_string :: "string option \<Rightarrow> bool" where
  "truthy_string None = False"
| "truthy_string (Some s) = (s \<noteq> [])"

definition getTasks_try :: "host \<Rightarrow> jsval list comp" where
  "getTasks_try h e =
     (if \<not> window_defined e then ret [] e
      else
        andThen (getItem VERSION_KEY) (\<lambda>version.
          if truthy_string version \<and> version \<noteq> Some STORAGE_VERSION
          then andThen clearTasks (\<lambda>_. ret [])
          else
            andThen (getItem STORAGE_KEY) (\<lambda>stored.
              case stored of
                None \<Rightarrow> ret []
              | Some text \<Rightarrow>
                  if text = [] then ret []
                  else
                    (case json_parse h text of
                       None \<Rightarrow> throw SyntaxError
                     | Some (JArr parsed) \<Rightarrow>
                         let validTasks = filter (isValidTask h) parsed
                         in if length validTasks \<noteq> length parsed
                            then andThen (saveTasks h validTasks) (\<lambda>_. ret validTasks)
                            else ret validTasks
                     | Some _ \<Rightarrow> andThen clearTasks (\<lambda>_. ret [])))) e)"

definition getTasks :: "host \<Rightarrow> jsval list comp" where
  "getTasks h = try_catch (getTasks_try h) (\<lambda>error. andThen clearTasks (\<lambda>_. ret []))"

text \<open>
  \<^verbatim>\<open>importTasks\<close>. The template literal of the success message needs the decimal
  numeral of a number. \<^verbatim>\<open>existingIds\<close> is a \<^verbatim>\<open>Set\<close> of the \<^verbatim>\<open>id\<close> properties of the loaded
  tasks, which are strings, so that \<^verbatim>\<open>has\<close> is equality of strings.
\<close>

definition digit :: "nat \<Rightarrow> char" where
  "digit d = ''0123456789'' ! d"

function decimal :: "nat \<Rightarrow> string" where
  "decimal n =
     (if n < 10 then [digit n]
      else decimal (n div 10) @ [digit (n mod 10)])"
  by pat_completeness auto
termination
  by (relation "measure id") auto

declare decimal.simps [simp del]

record import_result =
  success :: bool
  message :: string
  tasksImported :: nat

fun elements :: "jsval option \<Rightarrow> jsval list" where
  "elements (Some (JArr xs)) = xs"
| "elements v = []"

definition importTasks_try :: "host \<Rightarrow> string \<Rightarrow> import_result comp" where
  "importTasks_try h jsonData e =
     (case json_parse h jsonData of
        None \<Rightarrow> throw SyntaxError e
      | Some data \<Rightarrow>
          (case get_prop data ''tasks'' of
             Inl x \<Rightarrow> throw x e
           | Inr tasks \<Rightarrow>
               if \<not> truthy tasks \<or> \<not> isArray tasks
               then ret \<lparr>success = False, message = ''Invalid backup format'',
                         tasksImported = 0\<rparr> e
               else
                 let validTasks = filter (isValidTask h) (elements tasks)
                 in if length validTasks = 0
                    then ret \<lparr>success = False, message = ''No valid tasks found in backup'',
                              tasksImported = 0\<rparr> e
                    else
                      andThen (getTasks h) (\<lambda>existingTasks.
                        let existingIds = set (map (\<lambda>task. lookup task ''id'') existingTasks);
                            newTasks = filter (\<lambda>task. lookup task ''id'' \<notin> existingIds) validTasks;
                            mergedTasks = existingTasks @ newTasks
                        in andThen (saveTasks h mergedTasks) (\<lambda>_.
                             ret \<lparr>success = True,
                                  message = ''Successfully imported '' @ decimal (length newTasks)
                                    @ '' tasks'',
                                  tasksImported = length newTasks\<rparr>)) e))"

definition importTasks :: "host \<Rightarrow> string \<Rightarrow> import_result comp" where
  "importTasks h jsonData =
     try_catch (importTasks_try h jsonData)
       (\<lambda>error. ret \<lparr>success = False, message = ''Failed to parse backup file'',
                       tasksImported = 0\<rparr>)"

section \<open>The board: KanbanBoard, TaskForm, TaskCard\<close>

datatype TaskStatus = Todo | InProgress | Done

fun status_string :: "TaskStatus \<Rightarrow> string" where
  "status_string Todo = ''todo''"
| "status_string InProgress = ''in-progress''"
| "status_string Done = ''done''"

record task =
  task_id :: string
  title :: string
  description :: string
  status :: TaskStatus
  createdAt :: string

text \<open>The object that a \<^verbatim>\<open>Task\<close> is at run time, as \<^verbatim>\<open>addTask\<close> builds it.\<close>

definition task_object :: "task \<Rightarrow> jsval" where
  "task_object t =
     JObj [(''id'', JStr (task_id t)), (''title'', JStr (title t)),
           (''description'', JStr (description t)),
           (''status'', JStr (status_string (status t))),
           (''createdAt'', JStr (createdAt t))]"

record board =
  tasks :: "task list"
  draggedTask :: "task option"

text \<open>
  What \<^verbatim>\<open>addTask\<close> takes from the host: \<^verbatim>\<open>Date.now()\<close>, the nine characters of
  \<^verbatim>\<open>Math.random().toString(36).substr(2, 9)\<close> and \<^verbatim>\<open>new Date().toISOString()\<close>.
\<close>

record moment =
  date_now :: nat
  random_suffix :: string
  iso_now :: string

definition addTask :: "moment \<Rightarrow> string \<Rightarrow> string \<Rightarrow> board \<Rightarrow> board" where
  "addTask m title' description' b =
     (let newTask = \<lparr>task_id = ''task_'' @ decimal (date_now m) @ ''_'' @ random_suffix m,
                      title = title', description = description', status = Todo,
                      createdAt = iso_now m\<rparr>
      in b\<lparr>tasks := tasks b @ [newTask]\<rparr>)"

definition updateTaskStatus :: "string \<Rightarrow> TaskStatus \<Rightarrow> board \<Rightarrow> board" where
  "updateTaskStatus taskId newStatus b =
     b\<lparr>tasks := map (\<lambda>t. if task_id t = taskId then t\<lparr>status := newStatus\<rparr> else t) (tasks b)\<rparr>"

definition deleteTask :: "string \<Rightarrow> board \<Rightarrow> board" where
  "deleteTask taskId b = b\<lparr>tasks := filter (\<lambda>t. task_id t \<noteq> taskId) (tasks b)\<rparr>"

definition KanbanBoard_handleDragStart :: "task \<Rightarrow> board \<Rightarrow> board" where
  "KanbanBoard_handleDragStart t b = b\<lparr>draggedTask := Some t\<rparr>"

definition KanbanBoard_handleDragEnd :: "board \<Rightarrow> board" where
  "KanbanBoard_handleDragEnd b = b\<lparr>draggedTask := None\<rparr>"

definition KanbanBoard_handleDrop :: "TaskStatus \<Rightarrow> board \<Rightarrow> board" where
  "KanbanBoard_handleDrop status' b =
     (let b' = (case draggedTask b of
                  Some t \<Rightarrow> if status t \<noteq> status' then updateTaskStatus (task_id t) status' b else b
                | None \<Rightarrow> b)
      in b'\<lparr>draggedTask := None\<rparr>)"

text \<open>
  \<^verbatim>\<open>String.prototype.trim\<close>. A string of the model is the text in UTF-8, so a white-space
  character is a sequence of one to three bytes. The characters that \<^verbatim>\<open>trim\<close> strips are
  WhiteSpace and LineTerminator of ECMAScript: U+0009 to U+000D, U+0020, U+00A0, U+1680,
  U+2000 to U+200A, U+2028, U+2029, U+202F, U+205F, U+3000 and U+FEFF. \<open>strip\<close> removes
  leading sequences of a list of sequences for as long as there is one; \<open>trim\<close> strips
  the front, and the back on the reversed text.
\<close>

definition whiteSpace :: "string list" where
  "whiteSpace =
     [[CHR 0x09], [CHR 0x0A], [CHR 0x0B], [CHR 0x0C], [CHR 0x0D], [CHR 0x20],
      [CHR 0xC2, CHR 0xA0],
      [CHR 0xE1, CHR 0x9A, CHR 0x80],
      [CHR 0xE2, CHR 0x80, CHR 0x80], [CHR 0xE2, CHR 0x80, CHR 0x81],
      [CHR 0xE2, CHR 0x80, CHR 0x82], [CHR 0xE2, CHR 0x80, CHR 0x83],
      [CHR 0xE2, CHR 0x80, CHR 0x84], [CHR 0xE2, CHR 0x80, CHR 0x85],
      [CHR 0xE2, CHR 0x80, CHR 0x86], [CHR 0xE2, CHR 0x80, CHR 0x87],
      [CHR 0xE2, CHR 0x80, CHR 0x88], [CHR 0xE2, CHR 0x80, CHR 0x89],
      [CHR 0xE2, CHR 0x80, CHR 0x8A],
      [CHR 0xE2, CHR 0x80, CHR 0xA8], [CHR 0xE2, CHR 0x80, CHR 0xA9],
      [CHR 0xE2, CHR 0x80, CHR 0xAF],
      [CHR 0xE2, CHR 0x81, CHR 0x9F],
      [CHR 0xE3, CHR 0x80, CHR 0x80],
      [CHR 0xEF, CHR 0xBB, CHR 0xBF]]"

function strip :: "string list \<Rightarrow> string \<Rightarrow> string" where
  "strip ws s =
     (case find (\<lambda>w. w \<noteq> [] \<and> take (length w) s = w) ws of
        None \<Rightarrow> s
      | Some w \<Rightarrow> strip ws (drop (length w) s))"
  by pat_completeness auto
termination
proof (relation "measure (\<lambda>(ws, s). length s)")
  fix ws :: "string list" and s w :: string
  assume "find (\<lambda>w. w \<noteq> [] \<and> take (length w) s = w) ws = Some w"
  then have "w \<noteq> []" and "take (length w) s = w"
    by (auto simp add: find_Some_iff)
  have "0 < length w"
    using \<open>w \<noteq> []\<close> by simp
  moreover have "length w \<le> length s"
  proof -
    from \<open>take (length w) s = w\<close> have "length (take (length w) s) = length w"
      by simp
    then show ?thesis
      by simp
  qed
  ultimately show "((ws, drop (length w) s), ws, s) \<in> measure (\<lambda>(ws, s). length s)"
    by (cases w) auto
qed simp

declare strip.simps [simp del]

definition trim :: "string \<Rightarrow> string" where
  "trim s = rev (strip (map rev whiteSpace) (rev (strip whiteSpace s)))"

text \<open>
  \<^verbatim>\<open>TaskForm\<close>: its state, and \<^verbatim>\<open>handleSubmit\<close> with the callback \<^verbatim>\<open>onAddTask\<close> acting on
  the state of the parent. \<^verbatim>\<open>isSubmitting\<close> is set for the time of the call and reset in
  the \<^verbatim>\<open>finally\<close>.
\<close>

record form =
  form_title :: string
  form_description :: string
  isSubmitting :: bool

definition handleSubmit ::
  "(string \<Rightarrow> string \<Rightarrow> 'p \<Rightarrow> 'p) \<Rightarrow> form \<times> 'p \<Rightarrow> form \<times> 'p" where
  "handleSubmit onAddTask fp =
     (case fp of (f, p) \<Rightarrow>
        if trim (form_title f) = [] then (f, p)
        else (f\<lparr>form_title := [], form_description := [], isSubmitting := False\<rparr>,
              onAddTask (trim (form_title f)) (trim (form_description f)) p))"

text \<open>
  \<^verbatim>\<open>TaskCard.handleDragStart\<close> fills the \<^verbatim>\<open>DataTransfer\<close> of the drag and calls
  \<^verbatim>\<open>onDragStart\<close>. \<^verbatim>\<open>getData\<close> gives the empty string for a format that was not set.
\<close>

type_synonym transfer = "(string \<times> string) list"

definition getData :: "transfer \<Rightarrow> string \<Rightarrow> string" where
  "getData dt format = (case map_of dt format of None \<Rightarrow> [] | Some s \<Rightarrow> s)"

definition setData :: "string \<Rightarrow> string \<Rightarrow> transfer \<Rightarrow> transfer" where
  "setData format s dt = AList.update format s dt"

definition TaskCard_handleDragStart ::
  "host \<Rightarrow> (task \<Rightarrow> 'p \<Rightarrow> 'p) \<Rightarrow> task \<Rightarrow> transfer \<times> 'p \<Rightarrow> transfer \<times> 'p" where
  "TaskCard_handleDragStart h onDragStart t dp =
     (case dp of (dt, p) \<Rightarrow>
        (setData ''application/json'' (json_stringify h (task_object t))
           (setData ''text/plain'' (task_id t) dt),
         onDragStart t p))"

section \<open>The column: KanbanColumn\<close>

text \<open>
  The state of a column. Each handler is applied to the state of the latest render: the
  browser delivers the drag events one by one.
\<close>

record column =
  isDragOver :: bool
  dragOverCounter :: int

definition handleDragOver :: "column \<Rightarrow> column" where
  "handleDragOver c = (if \<not> isDragOver c then c\<lparr>isDragOver := True\<rparr> else c)"

definition handleDragEnter :: "column \<Rightarrow> column" where
  "handleDragEnter c =
     (let c' = c\<lparr>dragOverCounter := dragOverCounter c + 1\<rparr>
      in if \<not> isDragOver c then c'\<lparr>isDragOver := True\<rparr> else c')"

definition handleDragLeave :: "column \<Rightarrow> column" where
  "handleDragLeave c =
     (let newCounter = dragOverCounter c - 1
      in if newCounter \<le> 0 then c\<lparr>isDragOver := False, dragOverCounter := 0\<rparr>
         else c\<lparr>dragOverCounter := newCounter\<rparr>)"

text \<open>
  \<^verbatim>\<open>KanbanColumn.handleDrop\<close> on the column of \<^verbatim>\<open>status\<close>, with the callback \<^verbatim>\<open>onDrop\<close>
  acting on the state of the parent. The \<^verbatim>\<open>catch\<close> takes the SyntaxError of
  \<^verbatim>\<open>JSON.parse\<close> and the TypeError of reading \<^verbatim>\<open>status\<close> from \<^verbatim>\<open>null\<close>.
\<close>

definition KanbanColumn_handleDrop ::
  "host \<Rightarrow> (TaskStatus \<Rightarrow> 'p \<Rightarrow> 'p) \<Rightarrow> TaskStatus \<Rightarrow> transfer \<Rightarrow> column \<times> 'p \<Rightarrow> column \<times> 'p" where
  "KanbanColumn_handleDrop h onDrop status' dt cp =
     (case cp of (c, p) \<Rightarrow>
        let c' = c\<lparr>isDragOver := False, dragOverCounter := 0\<rparr>;
            taskId = getData dt ''text/plain'';
            taskData = getData dt ''application/json''
        in if taskId \<noteq> [] \<and> taskData \<noteq> []
           then (case json_parse h taskData of
                   None \<Rightarrow> (c', onDrop status' p)
                 | Some t \<Rightarrow>
                     (case get_prop t ''status'' of
                        Inl x \<Rightarrow> (c', onDrop status' p)
                      | Inr s \<Rightarrow>
                          if s \<noteq> Some (JStr (status_string status'))
                          then (c', onDrop status' p)
                          else (c', p)))
           else (c', p))"

section \<open>Notions the statements use\<close>

text \<open>
  The host's JSON functions agree on a value: \<^verbatim>\<open>JSON.stringify\<close> gives a text that is not
  empty and that \<^verbatim>\<open>JSON.parse\<close> turns back into the value.
\<close>

definition roundtrips :: "host \<Rightarrow> jsval \<Rightarrow> bool" where
  "roundtrips h v \<longleftrightarrow>
     json_stringify h v \<noteq> [] \<and> json_parse h (json_stringify h v) = Some v"

text \<open>
  The validity predicate in the words of the specification: an object with string \<^verbatim>\<open>id\<close>,
  \<^verbatim>\<open>title\<close> and \<^verbatim>\<open>description\<close>, a \<^verbatim>\<open>status\<close> of the enumerated set, and a \<^verbatim>\<open>createdAt\<close>
  that is a string the host parses as a date.
\<close>

fun is_string :: "jsval option \<Rightarrow> bool" where
  "is_string (Some (JStr s)) = True"
| "is_string v = False"

definition is_task_record :: "host \<Rightarrow> jsval \<Rightarrow> bool" where
  "is_task_record h v =
     (case v of
        JObj kvs \<Rightarrow>
          is_string (map_of kvs ''id'') \<and>
          is_string (map_of kvs ''title'') \<and>
          is_string (map_of kvs ''description'') \<and>
          (case map_of kvs ''status'' of
             Some (JStr s) \<Rightarrow> s = ''todo'' \<or> s = ''in-progress'' \<or> s = ''done''
           | _ \<Rightarrow> False) \<and>
          (case map_of kvs ''createdAt'' of
             Some (JStr s) \<Rightarrow> date_parse h s \<noteq> None
           | _ \<Rightarrow> False)
      | _ \<Rightarrow> False)"

section \<open>Concrete hosts, stores and tasks for the examples\<close>

text \<open>
  A host whose \<^verbatim>\<open>JSON.parse\<close> knows the texts of a table and throws on every other text,
  whose \<^verbatim>\<open>JSON.stringify\<close> gives the text the table has for a value, and whose
  \<^verbatim>\<open>Date.parse\<close> accepts one ISO timestamp.
\<close>

definition example_date :: string where
  "example_date = ''2024-01-01T00:00:00.000Z''"

definition table_host :: "(string \<times> jsval) list \<Rightarrow> host" where
  "table_host table =
     \<lparr>json_parse = map_of table,
      json_stringify =
        (\<lambda>v. case find (\<lambda>entry. snd entry = v) table of
               Some entry \<Rightarrow> fst entry
             | None \<Rightarrow> ''null''),
      date_parse = (\<lambda>s. if s = example_date then Some 1704067200000 else None)\<rparr>"

definition browser :: "(string \<times> string) list \<Rightarrow> env" where
  "browser kvs =
     \<lparr>window_defined = True, access_denied = False, quota = 4096, items = kvs\<rparr>"

definition example_task :: "string \<Rightarrow> TaskStatus \<Rightarrow> task" where
  "example_task i s =
     \<lparr>task_id = i, title = ''Write report'', description = [], status = s,
      createdAt = example_date\<rparr>"

definition task_a :: jsval where
  "task_a = task_object (example_task ''a'' Todo)"

definition task_a_done :: jsval where
  "task_a_done = task_object (example_task ''a'' Done)"

definition task_b :: jsval where
  "task_b = task_object (example_task ''b'' Done)"

definition text_a :: string where
  \<open>text_a = ''{"id":"a","title":"Write report","description":"","status":"todo","createdAt":"2024-01-01T00:00:00.000Z"}''\<close>

definition text_a_done :: string where
  \<open>text_a_done = ''{"id":"a","title":"Write report","description":"","status":"done","createdAt":"2024-01-01T00:00:00.000Z"}''\<close>

definition text_b :: string where
  \<open>text_b = ''{"id":"b","title":"Write report","description":"","status":"done","createdAt":"2024-01-01T00:00:00.000Z"}''\<close>

definition text_x :: string where
  \<open>text_x = ''{"id":"x"}''\<close>

definition example_host :: host where
  \<open>example_host =
     table_host
       [(text_a, task_a),
        (''['' @ text_a @ '']'', JArr [task_a]),
        (''['' @ text_a @ '','' @ text_b @ '']'', JArr [task_a, task_b]),
        (''['' @ text_a @ '','' @ text_a_done @ '']'', JArr [task_a, task_a_done]),
        (''{"tasks":['' @ text_a @ '','' @ text_a_done @ '']}'',
           JObj [(''tasks'', JArr [task_a, task_a_done])]),
        (''{"tasks":['' @ text_a_done @ '','' @ text_b @ '','' @ text_x @ '']}'',
           JObj [(''tasks'', JArr [task_a_done, task_b, JObj [(''id'', JStr ''x'')]])]),
        (''{"tasks":['' @ text_x @ '']}'',
           JObj [(''tasks'', JArr [JObj [(''id'', JStr ''x'')]])])]\<close>

text \<open>A parent component that records the calls of a callback.\<close>

definition record_call :: "'a \<Rightarrow> 'a list \<Rightarrow> 'a list" where
  "record_call x calls = calls @ [x]"

section \<open>The drag-enter counter of a column\<close>

text \<open>
  Claim C6. From the idle column (no highlight, counter 0), two drag-enter events and one
  drag-leave event leave the column highlighted with counter 1; the second drag-leave
  clears the highlight and brings the counter back to 0.
\<close>

theorem enter_enter_leave_keeps_highlight:
  "handleDragLeave (handleDragEnter (handleDragEnter \<lparr>isDragOver = False, dragOverCounter = 0\<rparr>))
     = \<lparr>isDragOver = True, dragOverCounter = 1\<rparr>
   \<and> handleDragLeave (handleDragLeave (handleDragEnter (handleDragEnter
         \<lparr>isDragOver = False, dragOverCounter = 0\<rparr>)))
     = \<lparr>isDragOver = False, dragOverCounter = 0\<rparr>"
  by (simp add: handleDragEnter_def handleDragLeave_def)

section \<open>The storage methods never raise\<close>

lemma saveTasks_returns: "fst (saveTasks h ts e) = Inr ()"
  by (simp add: saveTasks_def try_catch_def ret_def split: prod.splits sum.splits)

lemma clearTasks_returns: "fst (clearTasks e) = Inr ()"
  by (simp add: clearTasks_def try_catch_def ret_def split: prod.splits sum.splits)

lemma andThen_clear: "andThen clearTasks (\<lambda>_. ret v) e = (Inr v, snd (clearTasks e))"
  using clearTasks_returns [of e]
  by (cases "clearTasks e") (simp add: andThen_def ret_def)

lemma andThen_save: "andThen (saveTasks h ts) (\<lambda>_. ret v) e = (Inr v, snd (saveTasks h ts e))"
  using saveTasks_returns [of h ts e]
  by (cases "saveTasks h ts e") (simp add: andThen_def ret_def)

lemma andThen_getItem:
  "andThen (getItem k) f e =
     (if access_denied e then (Inl (DOMException 18), e) else f (map_of (items e) k) e)"
  by (simp add: andThen_def getItem_def ret_def throw_def)

lemma getTasks_returns: "\<exists>ts. fst (getTasks h e) = Inr ts"
proof (cases "getTasks_try h e")
  case (Pair r e')
  then show ?thesis
    by (cases r) (simp_all add: getTasks_def try_catch_def andThen_clear)
qed

section \<open>What the storage methods do in a browser\<close>

lemma keys_differ: "VERSION_KEY \<noteq> STORAGE_KEY"
  by (simp add: VERSION_KEY_def STORAGE_KEY_def)

lemma clearTasks_browser:
  assumes "window_defined e" and "\<not> access_denied e"
  shows "clearTasks e =
           (Inr (), e\<lparr>items := AList.delete VERSION_KEY (AList.delete STORAGE_KEY (items e))\<rparr>)"
  using assms
  by (simp add: clearTasks_def clearTasks_try_def try_catch_def andThen_def removeItem_def
      ret_def)

lemma saveTasks_try_written:
  assumes "window_defined e" and "saveTasks_try h C e = (Inr (), e')"
  shows "\<not> access_denied e \<and>
         e' = e\<lparr>items := AList.update VERSION_KEY STORAGE_VERSION
                 (AList.update STORAGE_KEY
                    (json_stringify h (JArr (filter (isValidTask h) C))) (items e))\<rparr>"
  using assms
  by (auto simp add: saveTasks_try_def andThen_def setItem_def ret_def throw_def Let_def
      split: if_splits)

lemma saveTasks_completes:
  assumes "saveTasks_try h C e = (Inr (), e')"
  shows "saveTasks h C e = (Inr (), e')"
  using assms by (simp add: saveTasks_def try_catch_def)

lemma load_written:
  assumes "window_defined e" and "\<not> access_denied e"
    and "map_of (items e) VERSION_KEY = Some STORAGE_VERSION"
    and "map_of (items e) STORAGE_KEY = Some (json_stringify h (JArr ts))"
    and "roundtrips h (JArr ts)"
    and "\<forall>t\<in>set ts. isValidTask h t"
  shows "getTasks h e = (Inr ts, e)"
proof -
  have "filter (isValidTask h) ts = ts"
    using assms(6) by (simp add: filter_id_conv)
  then show ?thesis
    using assms(1-5)
    by (simp add: getTasks_def getTasks_try_def try_catch_def andThen_getItem ret_def
        roundtrips_def STORAGE_VERSION_def)
qed

lemma save_then_load:
  assumes "window_defined e" and "saveTasks_try h C e = (Inr (), e')"
    and "roundtrips h (JArr (filter (isValidTask h) C))"
  shows "getTasks h e' = (Inr (filter (isValidTask h) C), e')"
proof -
  from saveTasks_try_written [OF assms(1,2)]
  have na: "\<not> access_denied e"
    and e': "e' = e\<lparr>items := AList.update VERSION_KEY STORAGE_VERSION
                 (AList.update STORAGE_KEY
                    (json_stringify h (JArr (filter (isValidTask h) C))) (items e))\<rparr>"
    by simp_all
  show ?thesis
    by (rule load_written) (use assms(1,3) na keys_differ in \<open>simp_all add: e' update_conv'\<close>)
qed

lemma getTasks_try_valid:
  assumes "getTasks_try h e = (Inr ts, e')"
  shows "\<forall>t\<in>set ts. isValidTask h t"
  using assms
  by (auto simp add: getTasks_try_def andThen_getItem andThen_clear andThen_save ret_def
      throw_def Let_def split: if_splits option.splits jsval.splits)

lemma getTasks_valid:
  assumes "getTasks h e = (Inr ts, e')"
  shows "\<forall>t\<in>set ts. isValidTask h t"
proof (cases "getTasks_try h e")
  case (Pair r e1)
  show ?thesis
  proof (cases r)
    case (Inl x)
    with Pair assms have "ts = []"
      by (simp add: getTasks_def try_catch_def andThen_clear)
    then show ?thesis by simp
  next
    case (Inr ts')
    with Pair assms have "getTasks_try h e = (Inr ts, e')"
      by (simp add: getTasks_def try_catch_def)
    then show ?thesis by (rule getTasks_try_valid)
  qed
qed

lemma typeof_string: "typeof v = ''string'' \<longleftrightarrow> is_string v"
  by (cases v rule: typeof.cases) simp_all

lemma isValidTask_iff: "isValidTask h t \<longleftrightarrow> is_task_record h t"
proof (cases t)
  case (JObj kvs)
  show ?thesis
    by (auto simp add: JObj isValidTask_def is_task_record_def typeof_string
        split: option.splits jsval.splits)
qed (simp_all add: isValidTask_def is_task_record_def)


section \<open>Saving and loading\<close>

text \<open>
  Claim C1. For every list \<open>C\<close> of values handed to \<^verbatim>\<open>saveTasks\<close>, in a browser (\<^verbatim>\<open>window\<close>
  is defined) where the two writes of \<^verbatim>\<open>saveTasks\<close> go through and the host's JSON functions
  agree on the array that is written, \<^verbatim>\<open>getTasks\<close> afterwards returns exactly the elements
  of \<open>C\<close> that pass \<^verbatim>\<open>isValidTask\<close>, in the order they have in \<open>C\<close>, and leaves the store
  as it is. \<^verbatim>\<open>isValidTask\<close> is the validity predicate of the specification: an object
  with string id, title and description, a status among todo, in-progress and done, and a
  createdAt string that parses as a date.
\<close>

theorem save_load_roundtrip:
  assumes "window_defined e"
    and "saveTasks_try h C e = (Inr (), e')"
    and "roundtrips h (JArr (filter (isValidTask h) C))"
  shows "saveTasks h C e = (Inr (), e')
         \<and> getTasks h e' = (Inr (filter (isValidTask h) C), e')
         \<and> filter (isValidTask h) C = filter (is_task_record h) C"
proof -
  have "filter (isValidTask h) C = filter (is_task_record h) C"
    by (rule filter_cong) (simp_all add: isValidTask_iff)
  with saveTasks_completes [OF assms(2)] save_then_load [OF assms] show ?thesis
    by simp
qed

text \<open>
  The theorem at a list of two valid tasks with a number between them, saved into an empty
  store.
\<close>

theorem save_load_roundtrip_witness:
  "window_defined (browser [])
   \<and> saveTasks_try example_host [task_a, JNum 5, task_b] (browser []) =
       (Inr (), browser [(STORAGE_KEY, ''['' @ text_a @ '','' @ text_b @ '']''),
                        (VERSION_KEY, STORAGE_VERSION)])
   \<and> roundtrips example_host (JArr (filter (isValidTask example_host) [task_a, JNum 5, task_b]))
   \<and> getTasks example_host
         (browser [(STORAGE_KEY, ''['' @ text_a @ '','' @ text_b @ '']''),
                   (VERSION_KEY, STORAGE_VERSION)]) =
       (Inr [task_a, task_b],
        browser [(STORAGE_KEY, ''['' @ text_a @ '','' @ text_b @ '']''),
                 (VERSION_KEY, STORAGE_VERSION)])"
proof -
  let ?e' = "browser [(STORAGE_KEY, ''['' @ text_a @ '','' @ text_b @ '']''),
                      (VERSION_KEY, STORAGE_VERSION)]"
  have w: "window_defined (browser [])"
    by (simp add: browser_def)
  have s: "saveTasks_try example_host [task_a, JNum 5, task_b] (browser []) = (Inr (), ?e')"
    by code_simp
  have f: "filter (isValidTask example_host) [task_a, JNum 5, task_b] = [task_a, task_b]"
    by code_simp
  have r: "roundtrips example_host (JArr (filter (isValidTask example_host) [task_a, JNum 5, task_b]))"
    by code_simp
  from save_load_roundtrip [OF w s r] w s r f show ?thesis
    by simp
qed

section \<open>The version gate\<close>

text \<open>
  Claim C3 as stated fails where the stored version marker is the empty string: the
  marker is present (\<^verbatim>\<open>getItem\<close> returns it, not \<^verbatim>\<open>null\<close>) and differs from 1.0, but
  \<^verbatim>\<open>version && ...\<close> is falsy, so \<^verbatim>\<open>getTasks\<close> returns the stored task and removes nothing.
\<close>

theorem version_gate_counterexample:
  "getItem VERSION_KEY (browser [(VERSION_KEY, []), (STORAGE_KEY, ''['' @ text_a @ '']'')]) =
     (Inr (Some []), browser [(VERSION_KEY, []), (STORAGE_KEY, ''['' @ text_a @ '']'')])
   \<and> [] \<noteq> STORAGE_VERSION
   \<and> getTasks example_host (browser [(VERSION_KEY, []), (STORAGE_KEY, ''['' @ text_a @ '']'')]) =
     (Inr [task_a], browser [(VERSION_KEY, []), (STORAGE_KEY, ''['' @ text_a @ '']'')])"
  by code_simp

text \<open>
  Claim C3, amended. For every store of a browser whose version marker is present, is not
  the empty string and differs from 1.0, \<^verbatim>\<open>getTasks\<close> returns the empty collection and
  removes both the collection entry and the version marker.
\<close>

theorem version_gate:
  assumes "window_defined e"
    and "getItem VERSION_KEY e = (Inr (Some v), e)"
    and "v \<noteq> []"
    and "v \<noteq> STORAGE_VERSION"
  shows "getTasks h e =
           (Inr [], e\<lparr>items := AList.delete VERSION_KEY (AList.delete STORAGE_KEY (items e))\<rparr>)
         \<and> getItem STORAGE_KEY (snd (getTasks h e)) = (Inr None, snd (getTasks h e))
         \<and> getItem VERSION_KEY (snd (getTasks h e)) = (Inr None, snd (getTasks h e))"
proof -
  from assms(2) have na: "\<not> access_denied e"
    by (auto simp add: getItem_def throw_def ret_def split: if_splits)
  with assms(2) have m: "map_of (items e) VERSION_KEY = Some v"
    by (simp add: getItem_def ret_def)
  have g: "getTasks h e =
           (Inr [], e\<lparr>items := AList.delete VERSION_KEY (AList.delete STORAGE_KEY (items e))\<rparr>)"
    using assms(1,3,4) na m
    by (simp add: getTasks_def getTasks_try_def try_catch_def andThen_getItem andThen_clear
        clearTasks_browser)
  show ?thesis
    using na keys_differ by (simp add: g getItem_def ret_def delete_conv')
qed

text \<open>The theorem at a store stamped 0.9 that holds one valid task.\<close>

theorem version_gate_witness:
  "window_defined (browser [(VERSION_KEY, ''0.9''), (STORAGE_KEY, ''['' @ text_a @ '']'')])
   \<and> getItem VERSION_KEY (browser [(VERSION_KEY, ''0.9''), (STORAGE_KEY, ''['' @ text_a @ '']'')]) =
       (Inr (Some ''0.9''), browser [(VERSION_KEY, ''0.9''), (STORAGE_KEY, ''['' @ text_a @ '']'')])
   \<and> ''0.9'' \<noteq> [] \<and> ''0.9'' \<noteq> STORAGE_VERSION
   \<and> getTasks example_host (browser [(VERSION_KEY, ''0.9''), (STORAGE_KEY, ''['' @ text_a @ '']'')]) =
       (Inr [], browser [])"
proof -
  let ?e = "browser [(VERSION_KEY, ''0.9''), (STORAGE_KEY, ''['' @ text_a @ '']'')]"
  have w: "window_defined ?e"
    by (simp add: browser_def)
  have g: "getItem VERSION_KEY ?e = (Inr (Some ''0.9''), ?e)"
    by (simp add: getItem_def ret_def browser_def)
  have n: "''0.9'' \<noteq> []" "''0.9'' \<noteq> STORAGE_VERSION"
    by (simp_all add: STORAGE_VERSION_def)
  have d: "?e\<lparr>items := AList.delete VERSION_KEY (AList.delete STORAGE_KEY (items ?e))\<rparr> = browser []"
    by (simp add: browser_def VERSION_KEY_def STORAGE_KEY_def)
  from version_gate [OF w g n, of example_host] w g n d show ?thesis
    by simp
qed

section \<open>Importing a backup\<close>

lemma andThen_getTasks:
  assumes "getTasks h e = (Inr existing, e1)"
  shows "andThen (getTasks h) f e = f existing e1"
  using assms by (simp add: andThen_def)

lemma importTasks_success:
  assumes "json_parse h doc = Some data"
    and "get_prop data ''tasks'' = Inr (Some (JArr ts))"
    and "\<exists>t\<in>set ts. isValidTask h t"
    and "getTasks h e = (Inr existing, e1)"
    and "new = filter (\<lambda>t. lookup t ''id'' \<notin> set (map (\<lambda>t. lookup t ''id'') existing))
                 (filter (isValidTask h) ts)"
  shows "importTasks h doc e =
           (Inr \<lparr>success = True,
                 message = ''Successfully imported '' @ decimal (length new) @ '' tasks'',
                 tasksImported = length new\<rparr>,
            snd (saveTasks h (existing @ new) e1))"
proof -
  from assms(3) have "filter (isValidTask h) ts \<noteq> []"
    by (simp add: filter_empty_conv)
  then show ?thesis
    using assms(1,2,4,5)
    by (simp add: importTasks_def importTasks_try_def try_catch_def andThen_getTasks
        andThen_save Let_def)
qed

lemma merged_persisted:
  assumes "getTasks h e = (Inr existing, e1)"
    and "\<forall>t\<in>set new. isValidTask h t"
    and "window_defined e1"
    and "saveTasks_try h (existing @ new) e1 = (Inr (), e2)"
    and "roundtrips h (JArr (existing @ new))"
  shows "snd (saveTasks h (existing @ new) e1) = e2 \<and> getTasks h e2 = (Inr (existing @ new), e2)"
proof -
  have v: "filter (isValidTask h) (existing @ new) = existing @ new"
    using getTasks_valid [OF assms(1)] assms(2) by (simp add: filter_id_conv)
  have "getTasks h e2 = (Inr (filter (isValidTask h) (existing @ new)), e2)"
    using assms(3,4,5) v by (intro save_then_load) (simp_all del: filter_append)
  moreover have "snd (saveTasks h (existing @ new) e1) = e2"
    using assms(4) by (simp add: saveTasks_def try_catch_def)
  ultimately show ?thesis
    using v by (simp del: filter_append)
qed

text \<open>
  Claim C2. For every backup text that parses to a document whose \<^verbatim>\<open>tasks\<close> array holds at
  least one valid task, and every store (\<open>existing\<close> is what \<^verbatim>\<open>getTasks\<close> loads from it),
  \<^verbatim>\<open>importTasks\<close> appends to \<open>existing\<close>, unchanged and in front, exactly the valid
  imported tasks whose id no existing task has; it hands the merged list to \<^verbatim>\<open>saveTasks\<close>
  and reports success with \<^verbatim>\<open>tasksImported\<close> the number of tasks appended. Where the
  writes of that \<^verbatim>\<open>saveTasks\<close> go through in a browser and the host's JSON functions agree
  on the merged array, the merged list is what \<^verbatim>\<open>getTasks\<close> loads afterwards.
\<close>

theorem importTasks_merges:
  assumes "json_parse h doc = Some data"
    and "get_prop data ''tasks'' = Inr (Some (JArr ts))"
    and "\<exists>t\<in>set ts. isValidTask h t"
    and "getTasks h e = (Inr existing, e1)"
  shows "let new = filter (\<lambda>t. lookup t ''id'' \<notin> set (map (\<lambda>t. lookup t ''id'') existing))
                     (filter (isValidTask h) ts)
         in importTasks h doc e =
              (Inr \<lparr>success = True,
                    message = ''Successfully imported '' @ decimal (length new) @ '' tasks'',
                    tasksImported = length new\<rparr>,
               snd (saveTasks h (existing @ new) e1))
            \<and> (window_defined e1 \<and> saveTasks_try h (existing @ new) e1 = (Inr (), e2)
                 \<and> roundtrips h (JArr (existing @ new))
               \<longrightarrow> snd (importTasks h doc e) = e2 \<and> getTasks h e2 = (Inr (existing @ new), e2))"
proof -
  define new where
    "new = filter (\<lambda>t. lookup t ''id'' \<notin> set (map (\<lambda>t. lookup t ''id'') existing))
             (filter (isValidTask h) ts)"
  have i: "importTasks h doc e =
              (Inr \<lparr>success = True,
                    message = ''Successfully imported '' @ decimal (length new) @ '' tasks'',
                    tasksImported = length new\<rparr>,
               snd (saveTasks h (existing @ new) e1))"
    using assms new_def by (rule importTasks_success)
  have v: "\<forall>t\<in>set new. isValidTask h t"
    by (simp add: new_def)
  have p: "snd (importTasks h doc e) = e2 \<and> getTasks h e2 = (Inr (existing @ new), e2)"
    if "window_defined e1" "saveTasks_try h (existing @ new) e1 = (Inr (), e2)"
      "roundtrips h (JArr (existing @ new))"
    using merged_persisted [OF assms(4) v that] by (simp add: i)
  from i p show ?thesis
    unfolding Let_def new_def [symmetric] by blast
qed

text \<open>
  The theorem at a store that holds task a, and a backup with another task of id a, a task b
  and an invalid record: only b is appended.
\<close>

theorem importTasks_merges_witness:
  \<open>json_parse example_host (''{"tasks":['' @ text_a_done @ '','' @ text_b @ '','' @ text_x @ '']}'') =
       Some (JObj [(''tasks'', JArr [task_a_done, task_b, JObj [(''id'', JStr ''x'')]])])
   \<and> get_prop (JObj [(''tasks'', JArr [task_a_done, task_b, JObj [(''id'', JStr ''x'')]])]) ''tasks'' =
       Inr (Some (JArr [task_a_done, task_b, JObj [(''id'', JStr ''x'')]]))
   \<and> (\<exists>t\<in>set [task_a_done, task_b, JObj [(''id'', JStr ''x'')]]. isValidTask example_host t)
   \<and> getTasks example_host
         (browser [(STORAGE_KEY, ''['' @ text_a @ '']''), (VERSION_KEY, STORAGE_VERSION)]) =
       (Inr [task_a], browser [(STORAGE_KEY, ''['' @ text_a @ '']''), (VERSION_KEY, STORAGE_VERSION)])
   \<and> window_defined (browser [(STORAGE_KEY, ''['' @ text_a @ '']''), (VERSION_KEY, STORAGE_VERSION)])
   \<and> saveTasks_try example_host [task_a, task_b]
         (browser [(STORAGE_KEY, ''['' @ text_a @ '']''), (VERSION_KEY, STORAGE_VERSION)]) =
       (Inr (), browser [(STORAGE_KEY, ''['' @ text_a @ '','' @ text_b @ '']''),
                        (VERSION_KEY, STORAGE_VERSION)])
   \<and> roundtrips example_host (JArr [task_a, task_b])
   \<and> importTasks example_host
         (''{"tasks":['' @ text_a_done @ '','' @ text_b @ '','' @ text_x @ '']}'')
         (browser [(STORAGE_KEY, ''['' @ text_a @ '']''), (VERSION_KEY, STORAGE_VERSION)]) =
       (Inr \<lparr>success = True, message = ''Successfully imported 1 tasks'', tasksImported = 1\<rparr>,
        browser [(STORAGE_KEY, ''['' @ text_a @ '','' @ text_b @ '']''),
                 (VERSION_KEY, STORAGE_VERSION)])
   \<and> getTasks example_host
         (browser [(STORAGE_KEY, ''['' @ text_a @ '','' @ text_b @ '']''),
                   (VERSION_KEY, STORAGE_VERSION)]) =
       (Inr [task_a, task_b],
        browser [(STORAGE_KEY, ''['' @ text_a @ '','' @ text_b @ '']''),
                 (VERSION_KEY, STORAGE_VERSION)])\<close>
proof -
  let ?doc = \<open>''{"tasks":['' @ text_a_done @ '','' @ text_b @ '','' @ text_x @ '']}''\<close>
  let ?ts = "[task_a_done, task_b, JObj [(''id'', JStr ''x'')]]"
  let ?data = "JObj [(''tasks'', JArr ?ts)]"
  let ?e = "browser [(STORAGE_KEY, ''['' @ text_a @ '']''), (VERSION_KEY, STORAGE_VERSION)]"
  let ?e2 = "browser [(STORAGE_KEY, ''['' @ text_a @ '','' @ text_b @ '']''),
                      (VERSION_KEY, STORAGE_VERSION)]"
  have p: "json_parse example_host ?doc = Some ?data"
    by code_simp
  have g: "get_prop ?data ''tasks'' = Inr (Some (JArr ?ts))"
    by (simp add: get_prop_def)
  have x: "\<exists>t\<in>set ?ts. isValidTask example_host t"
    by code_simp
  have l: "getTasks example_host ?e = (Inr [task_a], ?e)"
    by code_simp
  have n: "filter (\<lambda>t. lookup t ''id'' \<notin> set (map (\<lambda>t. lookup t ''id'') [task_a]))
             (filter (isValidTask example_host) ?ts) = [task_b]"
    by code_simp
  have w: "window_defined ?e"
    by (simp add: browser_def)
  have s: "saveTasks_try example_host [task_a, task_b] ?e = (Inr (), ?e2)"
    by code_simp
  have r: "roundtrips example_host (JArr [task_a, task_b])"
    by code_simp
  have d: "decimal (Suc 0) = ''1''"
    by code_simp
  from importTasks_merges [OF p g x l, where ?e2.0 = ?e2] n w s r d
    saveTasks_completes [OF s]
  show ?thesis
    using p g x l by (simp add: Let_def)
qed

text \<open>
  Claim C7. \<^verbatim>\<open>importTasks\<close> returns a result and never raises, whatever the text and the
  environment. For a text that does not parse as JSON the result is a failure with the
  message Failed to parse backup file and zero tasks imported; for a document whose
  \<^verbatim>\<open>tasks\<close> array holds no valid task it is a failure with the message No valid tasks found
  in backup and zero tasks imported. The store is untouched in both cases.
\<close>

theorem importTasks_definite:
  "(\<exists>r e'. importTasks h s e = (Inr r, e'))
   \<and> (json_parse h s = None \<longrightarrow>
        importTasks h s e =
          (Inr \<lparr>success = False, message = ''Failed to parse backup file'',
                tasksImported = 0\<rparr>, e))
   \<and> (json_parse h s = Some data \<and> get_prop data ''tasks'' = Inr (Some (JArr ts))
        \<and> (\<forall>t\<in>set ts. \<not> isValidTask h t) \<longrightarrow>
        importTasks h s e =
          (Inr \<lparr>success = False, message = ''No valid tasks found in backup'',
                tasksImported = 0\<rparr>, e))"
proof (intro conjI impI)
  show "\<exists>r e'. importTasks h s e = (Inr r, e')"
    by (cases "importTasks_try h s e")
       (auto simp add: importTasks_def try_catch_def ret_def split: sum.splits)
next
  assume "json_parse h s = None"
  then show "importTasks h s e =
          (Inr \<lparr>success = False, message = ''Failed to parse backup file'',
                tasksImported = 0\<rparr>, e)"
    by (simp add: importTasks_def importTasks_try_def try_catch_def throw_def ret_def)
next
  assume a: "json_parse h s = Some data \<and> get_prop data ''tasks'' = Inr (Some (JArr ts))
        \<and> (\<forall>t\<in>set ts. \<not> isValidTask h t)"
  then have "filter (isValidTask h) ts = []"
    by (simp add: filter_empty_conv)
  with a show "importTasks h s e =
          (Inr \<lparr>success = False, message = ''No valid tasks found in backup'',
                tasksImported = 0\<rparr>, e)"
    by (simp add: importTasks_def importTasks_try_def try_catch_def ret_def)
qed

text \<open>
  The theorem at a text that is not JSON and at the backup whose only record lacks the
  required fields.
\<close>

theorem importTasks_definite_witness:
  \<open>json_parse example_host ''not json'' = None
   \<and> importTasks example_host ''not json'' (browser []) =
       (Inr \<lparr>success = False, message = ''Failed to parse backup file'', tasksImported = 0\<rparr>,
        browser [])
   \<and> json_parse example_host (''{"tasks":['' @ text_x @ '']}'') =
       Some (JObj [(''tasks'', JArr [JObj [(''id'', JStr ''x'')]])])
   \<and> get_prop (JObj [(''tasks'', JArr [JObj [(''id'', JStr ''x'')]])]) ''tasks'' =
       Inr (Some (JArr [JObj [(''id'', JStr ''x'')]]))
   \<and> \<not> isValidTask example_host (JObj [(''id'', JStr ''x'')])
   \<and> importTasks example_host (''{"tasks":['' @ text_x @ '']}'') (browser []) =
       (Inr \<lparr>success = False, message = ''No valid tasks found in backup'', tasksImported = 0\<rparr>,
        browser [])\<close>
proof -
  let ?x = "JObj [(''id'', JStr ''x'')]"
  let ?data = "JObj [(''tasks'', JArr [?x])]"
  let ?doc = \<open>''{"tasks":['' @ text_x @ '']}''\<close>
  have n: "json_parse example_host ''not json'' = None"
    by code_simp
  have p: \<open>json_parse example_host (''{"tasks":['' @ text_x @ '']}'') = Some ?data\<close>
    by code_simp
  have g: "get_prop ?data ''tasks'' = Inr (Some (JArr [?x]))"
    by (simp add: get_prop_def)
  have i: "\<forall>t\<in>set [?x]. \<not> isValidTask example_host t"
    by (simp add: isValidTask_def)
  from importTasks_definite [where h = example_host and s = "''not json''" and e = "browser []"]
    importTasks_definite [where h = example_host and e = "browser []" and data = ?data
      and ts = "[?x]" and s = ?doc]
    n p g i
  show ?thesis
    by simp
qed

text \<open>
  Claim C10. \<^verbatim>\<open>importTasks\<close> compares the ids of the imported tasks with the ids of the
  existing tasks only. For a backup that holds two valid tasks of the same id, an id that
  no existing task has, both are appended: the merged list that is saved, and loaded back
  where the save goes through, has two tasks with one id.
\<close>

theorem importTasks_keeps_backup_duplicates:
  assumes "json_parse h doc = Some data"
    and "get_prop data ''tasks'' = Inr (Some (JArr (xs @ t1 # ys @ t2 # zs)))"
    and "isValidTask h t1" and "isValidTask h t2"
    and "lookup t1 ''id'' = lookup t2 ''id''"
    and "getTasks h e = (Inr existing, e1)"
    and "lookup t1 ''id'' \<notin> set (map (\<lambda>t. lookup t ''id'') existing)"
  shows "let new = filter (\<lambda>t. lookup t ''id'' \<notin> set (map (\<lambda>t. lookup t ''id'') existing))
                     (filter (isValidTask h) (xs @ t1 # ys @ t2 # zs))
         in importTasks h doc e =
              (Inr \<lparr>success = True,
                    message = ''Successfully imported '' @ decimal (length new) @ '' tasks'',
                    tasksImported = length new\<rparr>,
               snd (saveTasks h (existing @ new) e1))
            \<and> t1 \<in> set new \<and> t2 \<in> set new
            \<and> \<not> distinct (map (\<lambda>t. lookup t ''id'') (existing @ new))
            \<and> (window_defined e1 \<and> saveTasks_try h (existing @ new) e1 = (Inr (), e2)
                 \<and> roundtrips h (JArr (existing @ new))
               \<longrightarrow> getTasks h e2 = (Inr (existing @ new), e2))"
proof -
  define new where
    "new = filter (\<lambda>t. lookup t ''id'' \<notin> set (map (\<lambda>t. lookup t ''id'') existing))
             (filter (isValidTask h) (xs @ t1 # ys @ t2 # zs))"
  have ex: "\<exists>t\<in>set (xs @ t1 # ys @ t2 # zs). isValidTask h t"
    using assms(3) by auto
  have i: "importTasks h doc e =
              (Inr \<lparr>success = True,
                    message = ''Successfully imported '' @ decimal (length new) @ '' tasks'',
                    tasksImported = length new\<rparr>,
               snd (saveTasks h (existing @ new) e1))"
    using assms(1,2) ex assms(6) new_def by (rule importTasks_success)
  have m: "t1 \<in> set new" "t2 \<in> set new"
    using assms(3,4,5,7) by (simp_all add: new_def)
  have d: "\<not> distinct (map (\<lambda>t. lookup t ''id'') (existing @ new))"
    using assms(3,4,5,7) by (simp add: new_def)
  have v: "\<forall>t\<in>set new. isValidTask h t"
    unfolding new_def set_filter by blast
  have p: "getTasks h e2 = (Inr (existing @ new), e2)"
    if "window_defined e1" "saveTasks_try h (existing @ new) e1 = (Inr (), e2)"
      "roundtrips h (JArr (existing @ new))"
    using merged_persisted [OF assms(6) v that] by simp
  from i m d p show ?thesis
    unfolding Let_def new_def [symmetric] by blast
qed

text \<open>The theorem at an empty store and a backup of two tasks with id a.\<close>

theorem importTasks_keeps_backup_duplicates_witness:
  \<open>json_parse example_host (''{"tasks":['' @ text_a @ '','' @ text_a_done @ '']}'') =
       Some (JObj [(''tasks'', JArr ([] @ task_a # [] @ task_a_done # []))])
   \<and> get_prop (JObj [(''tasks'', JArr ([] @ task_a # [] @ task_a_done # []))]) ''tasks'' =
       Inr (Some (JArr ([] @ task_a # [] @ task_a_done # [])))
   \<and> isValidTask example_host task_a \<and> isValidTask example_host task_a_done
   \<and> lookup task_a ''id'' = lookup task_a_done ''id''
   \<and> getTasks example_host (browser []) = (Inr [], browser [])
   \<and> lookup task_a ''id'' \<notin> set (map (\<lambda>t. lookup t ''id'') [])
   \<and> window_defined (browser [])
   \<and> saveTasks_try example_host [task_a, task_a_done] (browser []) =
       (Inr (), browser [(STORAGE_KEY, ''['' @ text_a @ '','' @ text_a_done @ '']''),
                        (VERSION_KEY, STORAGE_VERSION)])
   \<and> roundtrips example_host (JArr [task_a, task_a_done])
   \<and> importTasks example_host (''{"tasks":['' @ text_a @ '','' @ text_a_done @ '']}'') (browser []) =
       (Inr \<lparr>success = True, message = ''Successfully imported 2 tasks'', tasksImported = 2\<rparr>,
        browser [(STORAGE_KEY, ''['' @ text_a @ '','' @ text_a_done @ '']''),
                 (VERSION_KEY, STORAGE_VERSION)])
   \<and> getTasks example_host
         (browser [(STORAGE_KEY, ''['' @ text_a @ '','' @ text_a_done @ '']''),
                   (VERSION_KEY, STORAGE_VERSION)]) =
       (Inr [task_a, task_a_done],
        browser [(STORAGE_KEY, ''['' @ text_a @ '','' @ text_a_done @ '']''),
                 (VERSION_KEY, STORAGE_VERSION)])
   \<and> \<not> distinct (map (\<lambda>t. lookup t ''id'') [task_a, task_a_done])\<close>
proof -
  let ?doc = \<open>''{"tasks":['' @ text_a @ '','' @ text_a_done @ '']}''\<close>
  let ?ts = "[] @ task_a # [] @ task_a_done # []"
  let ?data = "JObj [(''tasks'', JArr ?ts)]"
  let ?e2 = "browser [(STORAGE_KEY, ''['' @ text_a @ '','' @ text_a_done @ '']''),
                      (VERSION_KEY, STORAGE_VERSION)]"
  have p: "json_parse example_host ?doc = Some ?data"
    by code_simp
  have g: "get_prop ?data ''tasks'' = Inr (Some (JArr ?ts))"
    by (simp add: get_prop_def)
  have v1: "isValidTask example_host task_a"
    by code_simp
  have v2: "isValidTask example_host task_a_done"
    by code_simp
  have i: "lookup task_a ''id'' = lookup task_a_done ''id''"
    by code_simp
  have l: "getTasks example_host (browser []) = (Inr [], browser [])"
    by code_simp
  have m: "lookup task_a ''id'' \<notin> set (map (\<lambda>t. lookup t ''id'') [])"
    by simp
  have n: "filter (\<lambda>t. lookup t ''id'' \<notin> set (map (\<lambda>t. lookup t ''id'') []))
             (filter (isValidTask example_host) ?ts) = [task_a, task_a_done]"
    using v1 v2 by simp
  have w: "window_defined (browser [])"
    by (simp add: browser_def)
  have s: "saveTasks_try example_host [task_a, task_a_done] (browser []) = (Inr (), ?e2)"
    by code_simp
  have r: "roundtrips example_host (JArr [task_a, task_a_done])"
    by code_simp
  have d: "decimal (Suc (Suc 0)) = ''2''"
    by code_simp
  from importTasks_keeps_backup_duplicates [OF p g v1 v2 i l m, where ?e2.0 = ?e2]
    n w s r d saveTasks_completes [OF s]
  show ?thesis
    using p g v1 v2 i l by (simp add: Let_def)
qed

section \<open>Dropping a task on a column\<close>

lemma getData_dragStart:
  "getData (fst (TaskCard_handleDragStart h onDragStart t (dt, p))) ''application/json'' =
     json_stringify h (task_object t)"
  "getData (fst (TaskCard_handleDragStart h onDragStart t (dt, p))) ''text/plain'' = task_id t"
  by (simp_all add: TaskCard_handleDragStart_def getData_def setData_def update_conv')

lemma status_of_task_object:
  "get_prop (task_object t) ''status'' = Inr (Some (JStr (status_string (status t))))"
  by (simp add: get_prop_def task_object_def)

lemma column_drop_own_payload:
  assumes "roundtrips h (task_object t)"
  shows "KanbanColumn_handleDrop h onDrop (status t)
           (fst (TaskCard_handleDragStart h onDragStart t (dt, p0))) (c, p) =
         (c\<lparr>isDragOver := False, dragOverCounter := 0\<rparr>, p)"
  using assms
  by (simp add: KanbanColumn_handleDrop_def getData_dragStart status_of_task_object
      roundtrips_def Let_def)

text \<open>
  Claim C4 as stated fails where the payload is absent: \<^verbatim>\<open>getData\<close> gives the empty string,
  which does not parse, and \<^verbatim>\<open>if (taskId && taskData)\<close> skips the whole body, so the
  handler resets the highlight and calls nothing. A call of \<^verbatim>\<open>onDrop\<close> would have been
  recorded.
\<close>

theorem malformed_drop_counterexample:
  "getData [] ''application/json'' = []
   \<and> json_parse example_host (getData [] ''application/json'') = None
   \<and> KanbanColumn_handleDrop example_host record_call Done []
        (\<lparr>isDragOver = True, dragOverCounter = 1\<rparr>, []) =
      (\<lparr>isDragOver = False, dragOverCounter = 0\<rparr>, [])
   \<and> record_call Done [] = [Done]"
  by code_simp

text \<open>
  Claim C4, amended. For every drop on a column whose transfer holds a non-empty
  \<^verbatim>\<open>text/plain\<close> entry and a non-empty \<^verbatim>\<open>application/json\<close> entry that fails to parse, the
  drop handler calls \<^verbatim>\<open>onDrop\<close> with the status of the column. When one of the two entries
  is absent or empty, the handler calls nothing.
\<close>

theorem malformed_drop_falls_back:
  "(getData dt ''text/plain'' \<noteq> [] \<and> getData dt ''application/json'' \<noteq> []
      \<and> json_parse h (getData dt ''application/json'') = None \<longrightarrow>
      KanbanColumn_handleDrop h onDrop col dt (c, p) =
        (c\<lparr>isDragOver := False, dragOverCounter := 0\<rparr>, onDrop col p))
   \<and> (getData dt ''text/plain'' = [] \<or> getData dt ''application/json'' = [] \<longrightarrow>
      KanbanColumn_handleDrop h onDrop col dt (c, p) =
        (c\<lparr>isDragOver := False, dragOverCounter := 0\<rparr>, p))"
  by (auto simp add: KanbanColumn_handleDrop_def Let_def)

text \<open>
  The theorem at a transfer whose JSON entry is malformed, and at one without a JSON entry.
\<close>

theorem malformed_drop_falls_back_witness:
  "getData [(''text/plain'', ''a''), (''application/json'', ''{oops'')] ''text/plain'' \<noteq> []
   \<and> getData [(''text/plain'', ''a''), (''application/json'', ''{oops'')] ''application/json'' \<noteq> []
   \<and> json_parse example_host
        (getData [(''text/plain'', ''a''), (''application/json'', ''{oops'')] ''application/json'') = None
   \<and> KanbanColumn_handleDrop example_host record_call Done
        [(''text/plain'', ''a''), (''application/json'', ''{oops'')]
        (\<lparr>isDragOver = True, dragOverCounter = 1\<rparr>, []) =
      (\<lparr>isDragOver = False, dragOverCounter = 0\<rparr>, [Done])
   \<and> getData [(''text/plain'', ''a'')] ''application/json'' = []
   \<and> KanbanColumn_handleDrop example_host record_call Done [(''text/plain'', ''a'')]
        (\<lparr>isDragOver = True, dragOverCounter = 1\<rparr>, []) =
      (\<lparr>isDragOver = False, dragOverCounter = 0\<rparr>, [])"
proof -
  let ?dt = "[(''text/plain'', ''a''), (''application/json'', ''{oops'')]"
  let ?c = "\<lparr>isDragOver = True, dragOverCounter = 1\<rparr>"
  have a: "getData ?dt ''text/plain'' \<noteq> []" "getData ?dt ''application/json'' \<noteq> []"
    by (simp_all add: getData_def)
  have n: "json_parse example_host (getData ?dt ''application/json'') = None"
    by code_simp
  have b: "getData [(''text/plain'', ''a'')] ''application/json'' = []"
    by (simp add: getData_def)
  from malformed_drop_falls_back [where dt = ?dt and h = example_host and onDrop = record_call
      and col = Done and c = ?c and p = "[]"]
    malformed_drop_falls_back [where dt = "[(''text/plain'', ''a'')]" and h = example_host
      and onDrop = record_call and col = Done and c = ?c and p = "[]"]
    a n b
  show ?thesis
    by (simp add: record_call_def)
qed

text \<open>
  Claim C8. While a task is dragged, \<^verbatim>\<open>KanbanBoard.handleDrop\<close> asks for a status change
  (\<^verbatim>\<open>updateTaskStatus\<close> with the id of the task and the column) only when the column
  differs from the status of the dragged task. When the column is the task's own, the
  task collection is unchanged, whatever transfer the column handler receives, and for the
  transfer that \<^verbatim>\<open>TaskCard.handleDragStart\<close> filled, \<^verbatim>\<open>KanbanColumn.handleDrop\<close> does not
  call \<^verbatim>\<open>onDrop\<close> at all; it calls \<^verbatim>\<open>onDrop\<close> for that transfer only when the column
  differs from the status of the task.
\<close>

theorem drop_on_own_column:
  assumes "draggedTask b = Some t"
  shows "KanbanBoard_handleDrop col b =
           (if status t = col then b else updateTaskStatus (task_id t) col b)\<lparr>draggedTask := None\<rparr>
         \<and> (status t = col \<longrightarrow>
               tasks (KanbanBoard_handleDrop col b) = tasks b
               \<and> tasks (snd (KanbanColumn_handleDrop h KanbanBoard_handleDrop col dt (c, b))) = tasks b)
         \<and> (roundtrips h (task_object t) \<and> status t = col \<longrightarrow>
               KanbanColumn_handleDrop h onDrop col
                 (fst (TaskCard_handleDragStart h onDragStart t (dt0, p0))) (c, p) =
               (c\<lparr>isDragOver := False, dragOverCounter := 0\<rparr>, p))
         \<and> (roundtrips h (task_object t)
               \<and> snd (KanbanColumn_handleDrop h onDrop col
                    (fst (TaskCard_handleDragStart h onDragStart t (dt0, p0))) (c, p)) \<noteq> p \<longrightarrow>
               status t \<noteq> col)"
proof -
  have 1: "KanbanBoard_handleDrop col b =
           (if status t = col then b else updateTaskStatus (task_id t) col b)\<lparr>draggedTask := None\<rparr>"
    using assms by (simp add: KanbanBoard_handleDrop_def)
  have 2: "tasks (KanbanBoard_handleDrop col b) = tasks b" if "status t = col"
    using that by (simp add: 1)
  have 3: "tasks (snd (KanbanColumn_handleDrop h KanbanBoard_handleDrop col dt (c, b))) = tasks b"
    if "status t = col"
    using 2 [OF that]
    by (simp add: KanbanColumn_handleDrop_def Let_def split: option.splits sum.splits)
  have 4: "KanbanColumn_handleDrop h onDrop col
                 (fst (TaskCard_handleDragStart h onDragStart t (dt0, p0))) (c, p) =
               (c\<lparr>isDragOver := False, dragOverCounter := 0\<rparr>, p)"
    if "roundtrips h (task_object t)" "status t = col"
    using column_drop_own_payload [OF that(1)] that(2) by simp
  from 1 2 3 4 show ?thesis
    by (metis snd_conv)
qed

text \<open>
  The theorem at a board of two tasks, the first one dragged: dropped on its own column
  To Do, and on the column Done.
\<close>

theorem drop_on_own_column_witness:
  "draggedTask \<lparr>tasks = [example_task ''a'' Todo, example_task ''b'' Done],
                draggedTask = Some (example_task ''a'' Todo)\<rparr> = Some (example_task ''a'' Todo)
   \<and> status (example_task ''a'' Todo) = Todo
   \<and> roundtrips example_host (task_object (example_task ''a'' Todo))
   \<and> KanbanBoard_handleDrop Todo
        \<lparr>tasks = [example_task ''a'' Todo, example_task ''b'' Done],
         draggedTask = Some (example_task ''a'' Todo)\<rparr> =
      \<lparr>tasks = [example_task ''a'' Todo, example_task ''b'' Done], draggedTask = None\<rparr>
   \<and> tasks (snd (KanbanColumn_handleDrop example_host KanbanBoard_handleDrop Todo
          [(''text/plain'', ''a''), (''application/json'', ''{oops'')]
          (\<lparr>isDragOver = True, dragOverCounter = 1\<rparr>,
           \<lparr>tasks = [example_task ''a'' Todo, example_task ''b'' Done],
            draggedTask = Some (example_task ''a'' Todo)\<rparr>))) =
      [example_task ''a'' Todo, example_task ''b'' Done]
   \<and> KanbanColumn_handleDrop example_host record_call Todo
        (fst (TaskCard_handleDragStart example_host KanbanBoard_handleDragStart
           (example_task ''a'' Todo)
           ([], \<lparr>tasks = [example_task ''a'' Todo, example_task ''b'' Done], draggedTask = None\<rparr>)))
        (\<lparr>isDragOver = True, dragOverCounter = 1\<rparr>, []) =
      (\<lparr>isDragOver = False, dragOverCounter = 0\<rparr>, [])
   \<and> snd (KanbanColumn_handleDrop example_host record_call Done
        (fst (TaskCard_handleDragStart example_host KanbanBoard_handleDragStart
           (example_task ''a'' Todo)
           ([], \<lparr>tasks = [example_task ''a'' Todo, example_task ''b'' Done], draggedTask = None\<rparr>)))
        (\<lparr>isDragOver = True, dragOverCounter = 1\<rparr>, [])) \<noteq> []
   \<and> status (example_task ''a'' Todo) \<noteq> Done"
proof -
  let ?t = "example_task ''a'' Todo"
  let ?ts = "[?t, example_task ''b'' Done]"
  let ?b = "\<lparr>tasks = ?ts, draggedTask = Some ?t\<rparr>"
  let ?start = "\<lparr>tasks = ?ts, draggedTask = None\<rparr>"
  let ?c = "\<lparr>isDragOver = True, dragOverCounter = 1\<rparr>"
  let ?dt = "fst (TaskCard_handleDragStart example_host KanbanBoard_handleDragStart ?t ([], ?start))"
  have d: "draggedTask ?b = Some ?t"
    by simp
  have s: "status ?t = Todo"
    by (simp add: example_task_def)
  have r: "roundtrips example_host (task_object ?t)"
    by code_simp
  have n: "snd (KanbanColumn_handleDrop example_host record_call Done ?dt (?c, [])) \<noteq> []"
    by code_simp
  from drop_on_own_column [OF d, where col = Todo and h = example_host
      and dt = "[(''text/plain'', ''a''), (''application/json'', ''{oops'')]" and c = ?c
      and onDrop = record_call and onDragStart = KanbanBoard_handleDragStart
      and ?dt0.0 = "[]" and ?p0.0 = ?start and p = "[]"]
    drop_on_own_column [OF d, where col = Done and h = example_host and c = ?c
      and onDrop = record_call and onDragStart = KanbanBoard_handleDragStart
      and ?dt0.0 = "[]" and ?p0.0 = ?start and p = "[]"]
    d s r n
  show ?thesis
    by simp
qed

section \<open>The board's operations\<close>

text \<open>
  Claim C9. For every board, task id and new status, \<^verbatim>\<open>updateTaskStatus\<close> keeps the length
  and the order of the list: at every position, a task with the given id becomes the same
  task with the new status, any other task stays as it is, and id, title, description and
  createdAt are the same as before. When no task has the given id, the board is unchanged.
\<close>

theorem updateTaskStatus_frame:
  "length (tasks (updateTaskStatus taskId newStatus b)) = length (tasks b)
   \<and> draggedTask (updateTaskStatus taskId newStatus b) = draggedTask b
   \<and> (\<forall>i<length (tasks b).
        (task_id (tasks b ! i) = taskId \<longrightarrow>
           tasks (updateTaskStatus taskId newStatus b) ! i = (tasks b ! i)\<lparr>status := newStatus\<rparr>)
        \<and> (task_id (tasks b ! i) \<noteq> taskId \<longrightarrow>
           tasks (updateTaskStatus taskId newStatus b) ! i = tasks b ! i)
        \<and> task_id (tasks (updateTaskStatus taskId newStatus b) ! i) = task_id (tasks b ! i)
        \<and> title (tasks (updateTaskStatus taskId newStatus b) ! i) = title (tasks b ! i)
        \<and> description (tasks (updateTaskStatus taskId newStatus b) ! i) = description (tasks b ! i)
        \<and> createdAt (tasks (updateTaskStatus taskId newStatus b) ! i) = createdAt (tasks b ! i))
   \<and> (taskId \<notin> set (map task_id (tasks b)) \<longrightarrow> updateTaskStatus taskId newStatus b = b)"
proof -
  have "map (\<lambda>t. if task_id t = taskId then t\<lparr>status := newStatus\<rparr> else t) (tasks b) = tasks b"
    if "taskId \<notin> set (map task_id (tasks b))"
    using that by (intro map_idI) auto
  then show ?thesis
    by (simp add: updateTaskStatus_def)
qed

text \<open>
  The theorem at a board of two tasks: position 0 matches the id, position 1 does not, and
  no task has the id z.
\<close>

theorem updateTaskStatus_frame_witness:
  "(0::nat) < length (tasks \<lparr>tasks = [example_task ''a'' Todo, example_task ''b'' Done],
                             draggedTask = None\<rparr>)
   \<and> task_id (tasks \<lparr>tasks = [example_task ''a'' Todo, example_task ''b'' Done],
                     draggedTask = None\<rparr> ! 0) = ''a''
   \<and> (1::nat) < length (tasks \<lparr>tasks = [example_task ''a'' Todo, example_task ''b'' Done],
                               draggedTask = None\<rparr>)
   \<and> task_id (tasks \<lparr>tasks = [example_task ''a'' Todo, example_task ''b'' Done],
                     draggedTask = None\<rparr> ! 1) \<noteq> ''a''
   \<and> updateTaskStatus ''a'' Done
        \<lparr>tasks = [example_task ''a'' Todo, example_task ''b'' Done], draggedTask = None\<rparr> =
      \<lparr>tasks = [example_task ''a'' Done, example_task ''b'' Done], draggedTask = None\<rparr>
   \<and> ''z'' \<notin> set (map task_id (tasks \<lparr>tasks = [example_task ''a'' Todo, example_task ''b'' Done],
                                       draggedTask = None\<rparr>))
   \<and> updateTaskStatus ''z'' Done
        \<lparr>tasks = [example_task ''a'' Todo, example_task ''b'' Done], draggedTask = None\<rparr> =
      \<lparr>tasks = [example_task ''a'' Todo, example_task ''b'' Done], draggedTask = None\<rparr>"
proof -
  let ?b = "\<lparr>tasks = [example_task ''a'' Todo, example_task ''b'' Done], draggedTask = None\<rparr>"
  let ?b' = "updateTaskStatus ''a'' Done ?b"
  have l: "(0::nat) < length (tasks ?b)" "(1::nat) < length (tasks ?b)"
    by simp_all
  have i: "task_id (tasks ?b ! 0) = ''a''" "task_id (tasks ?b ! 1) \<noteq> ''a''"
    by (simp_all add: example_task_def)
  have z: "''z'' \<notin> set (map task_id (tasks ?b))"
    by (simp add: example_task_def)
  have u: "(example_task ''a'' Todo)\<lparr>status := Done\<rparr> = example_task ''a'' Done"
    by (simp add: example_task_def)
  from updateTaskStatus_frame [of "''a''" Done ?b]
  have "length (tasks ?b') = length (tasks ?b)" and "draggedTask ?b' = draggedTask ?b"
    and a: "\<forall>i<length (tasks ?b).
        (task_id (tasks ?b ! i) = ''a'' \<longrightarrow> tasks ?b' ! i = (tasks ?b ! i)\<lparr>status := Done\<rparr>)
        \<and> (task_id (tasks ?b ! i) \<noteq> ''a'' \<longrightarrow> tasks ?b' ! i = tasks ?b ! i)"
    by blast+
  from a l(1) i(1) have 0: "tasks ?b' ! 0 = example_task ''a'' Done"
    using u by auto
  from a l(2) i(2) have 1: "tasks ?b' ! 1 = example_task ''b'' Done"
    by auto
  have "length (tasks ?b') = 2"
    using \<open>length (tasks ?b') = length (tasks ?b)\<close> by simp
  with 0 1 have "tasks ?b' = [example_task ''a'' Done, example_task ''b'' Done]"
    by (intro nth_equalityI) (auto simp add: less_Suc_eq numeral_2_eq_2)
  with \<open>draggedTask ?b' = draggedTask ?b\<close>
  have e: "?b' = \<lparr>tasks = [example_task ''a'' Done, example_task ''b'' Done], draggedTask = None\<rparr>"
    by (cases ?b') simp
  from updateTaskStatus_frame [of "''z''" Done ?b] z
  have "updateTaskStatus ''z'' Done ?b = ?b"
    by blast
  with l i z e show ?thesis
    by simp
qed

section \<open>Adding a task\<close>

text \<open>
  A title made only of white-space characters is empty after trimming.
\<close>

lemma whiteSpace_shape:
  assumes "w \<in> set whiteSpace"
  shows "w \<noteq> [] \<and>
         length w = (if of_char (hd w) < (128::nat) then 1
                     else if of_char (hd w) < (224::nat) then 2 else 3)"
  using assms unfolding whiteSpace_def by auto

lemma whiteSpace_prefix_free:
  assumes "w \<in> set whiteSpace" and "w' \<in> set whiteSpace"
    and "take (length w') (w @ r) = w'"
  shows "w' = w"
proof -
  from whiteSpace_shape [OF assms(1)] whiteSpace_shape [OF assms(2)]
  have n: "w \<noteq> []" "w' \<noteq> []"
    and l: "length w = (if of_char (hd w) < (128::nat) then 1
                     else if of_char (hd w) < (224::nat) then 2 else 3)"
      "length w' = (if of_char (hd w') < (128::nat) then 1
                     else if of_char (hd w') < (224::nat) then 2 else 3)"
    by simp_all
  have "hd w' = hd (take (length w') (w @ r))"
    using assms(3) by simp
  also have "\<dots> = hd w"
    using n by (cases w; cases w') simp_all
  finally have "length w' = length w"
    using l by simp
  with assms(3) show ?thesis
    by simp
qed

lemma strip_Nil: "strip ws [] = []"
proof -
  have "find (\<lambda>w. w \<noteq> [] \<and> take (length w) [] = w) ws = None"
    by (auto simp add: find_None_iff)
  then show ?thesis
    by (simp add: strip.simps)
qed

lemma strip_white_space:
  assumes "set ws \<subseteq> set whiteSpace"
  shows "strip whiteSpace (concat ws) = []"
  using assms
proof (induction ws)
  case Nil
  then show ?case by (simp add: strip_Nil)
next
  case (Cons w ws)
  then have w: "w \<in> set whiteSpace" and rest: "set ws \<subseteq> set whiteSpace"
    by simp_all
  let ?P = "\<lambda>w'. w' \<noteq> [] \<and> take (length w') (w @ concat ws) = w'"
  have "?P w"
    using whiteSpace_shape [OF w] by simp
  with w obtain w' where f: "find ?P whiteSpace = Some w'"
    by (cases "find ?P whiteSpace") (auto simp add: find_None_iff)
  then have "w' \<in> set whiteSpace" and "take (length w') (w @ concat ws) = w'"
    by (auto simp add: find_Some_iff)
  with w have "w' = w"
    by (rule whiteSpace_prefix_free)
  with f have "strip whiteSpace (w @ concat ws) = strip whiteSpace (concat ws)"
    by (subst strip.simps) simp
  with Cons.IH [OF rest] show ?case
    by simp
qed

lemma trim_white_space:
  assumes "set ws \<subseteq> set whiteSpace"
  shows "trim (concat ws) = []"
  using strip_white_space [OF assms] by (simp add: trim_def strip_Nil)

text \<open>
  Claim C5. For every title that is empty or only white space after trimming and every
  description, adding a task is a no-op. \<^verbatim>\<open>KanbanBoard.addTask\<close> is a closure that the
  board passes to \<^verbatim>\<open>TaskForm\<close> as \<^verbatim>\<open>onAddTask\<close> and that nothing else calls;
  \<^verbatim>\<open>TaskForm.handleSubmit\<close> returns before the callback when the trimmed title is empty,
  so \<^verbatim>\<open>addTask\<close> is not called, no task is created, and the form and the task collection
  are unchanged.
\<close>

theorem blank_title_not_submitted:
  assumes "trim (form_title f) = []"
  shows "handleSubmit onAddTask (f, p) = (f, p)
         \<and> handleSubmit (addTask m) (f, b) = (f, b)"
  using assms by (simp add: handleSubmit_def)

text \<open>
  The theorem at a title of a space, an ideographic space (U+3000), a tab and a no-break
  space (U+00A0), on a board that holds one task.
\<close>

theorem blank_title_not_submitted_witness:
  "trim (form_title \<lparr>form_title = [CHR 0x20, CHR 0xE3, CHR 0x80, CHR 0x80, CHR 0x09, CHR 0xC2, CHR 0xA0],
                     form_description = ''desc'', isSubmitting = False\<rparr>) = []
   \<and> handleSubmit (addTask \<lparr>date_now = 1704067200000, random_suffix = ''k3j9x0q2z'',
                             iso_now = example_date\<rparr>)
        (\<lparr>form_title = [CHR 0x20, CHR 0xE3, CHR 0x80, CHR 0x80, CHR 0x09, CHR 0xC2, CHR 0xA0],
          form_description = ''desc'', isSubmitting = False\<rparr>,
         \<lparr>tasks = [example_task ''a'' Todo], draggedTask = None\<rparr>) =
      (\<lparr>form_title = [CHR 0x20, CHR 0xE3, CHR 0x80, CHR 0x80, CHR 0x09, CHR 0xC2, CHR 0xA0],
         form_description = ''desc'', isSubmitting = False\<rparr>,
       \<lparr>tasks = [example_task ''a'' Todo], draggedTask = None\<rparr>)"
proof -
  let ?f = "\<lparr>form_title = [CHR 0x20, CHR 0xE3, CHR 0x80, CHR 0x80, CHR 0x09, CHR 0xC2, CHR 0xA0],
             form_description = ''desc'', isSubmitting = False\<rparr>"
  let ?m = "\<lparr>date_now = 1704067200000, random_suffix = ''k3j9x0q2z'', iso_now = example_date\<rparr>"
  let ?board = "\<lparr>tasks = [example_task ''a'' Todo], draggedTask = None\<rparr>"
  have t: "trim (form_title ?f) = []"
    by code_simp
  from blank_title_not_submitted [OF t, where b = ?board and p = ?board
      and onAddTask = "addTask ?m" and m = ?m] t
  show ?thesis
    by simp
qed

end
